theory Spec2Isabelle
  imports Main
begin

section \<open>JavaScript values used by the immunization form\<close>

text \<open>
  The component is TypeScript compiled without strict null checks: the initial state
  stores \<open>null\<close> in fields declared \<open>string\<close>, and fields taken from the navigation
  parameters may be missing. A value of declared type \<open>T\<close> is therefore either
  \<open>undefined\<close>, \<open>null\<close> or a value of \<open>T\<close>.
\<close>

datatype 'a nullable = Undefined | Null | Val 'a

text \<open>
  \<open>!!v\<close> for a string-typed \<open>v\<close>: \<open>undefined\<close>, \<open>null\<close> and the empty string are
  falsy, every other string is truthy.
\<close>

definition truthy_str :: "string nullable \<Rightarrow> bool" where
  "truthy_str v = (case v of Undefined \<Rightarrow> False | Null \<Rightarrow> False | Val s \<Rightarrow> s \<noteq> [])"

text \<open>
  The text a template literal inserts for a string-typed \<open>v\<close>.
\<close>

definition template_str :: "string nullable \<Rightarrow> string" where
  "template_str v = (case v of Undefined \<Rightarrow> ''undefined'' | Null \<Rightarrow> ''null'' | Val s \<Rightarrow> s)"

text \<open>
  The numbers that occur here are the results of \<open>parseInt\<close> and the sequence numbers
  they are compared with: an integral double, an infinity or \<open>NaN\<close>. Under \<open>===\<close> the
  two zeros are equal and \<open>NaN\<close> equals nothing.
\<close>

datatype jsnum = NaN | Num int | PosInfinity | NegInfinity

section \<open>Data model\<close>

text \<open>
  \<open>ImmunizationSequence\<close> is declared in the domain module; the component reads its
  \<open>sequenceNumber\<close> and \<open>sequenceLabel\<close> and builds the empty object
  \<open>{} as ImmunizationSequence\<close>, in which both properties are \<open>undefined\<close>.
\<close>

record ImmunizationSequence =
  sequenceLabel :: "string nullable"
  sequenceNumber :: "int nullable"

definition defaultDose :: ImmunizationSequence where
  "defaultDose = \<lparr>sequenceLabel = Undefined, sequenceNumber = Undefined\<rparr>"

record ImmunizationFormState =
  vaccineName :: "string nullable"
  vaccineUuid :: "string nullable"
  immunizationObsUuid :: "string nullable"
  vaccinationDate :: "string nullable"
  currentDose :: ImmunizationSequence
  sequences :: "ImmunizationSequence list"
  expirationDate :: "string nullable"
  lotNumber :: "string nullable"
  manufacturer :: "string nullable"
  formChanged :: bool

text \<open>
  \<open>ImmunizationFormData\<close> (domain module): the shape of the navigation parameters and of
  the object assembled on submission. Its properties are those the component destructures
  (lines 55-65) and writes (lines 89-99); the field names carry the suffix \<open>_fd\<close> to
  keep them apart from the state's.
\<close>

record ImmunizationFormData =
  patientUuid_fd :: "string nullable"
  immunizationObsUuid_fd :: "string nullable"
  vaccineName_fd :: "string nullable"
  vaccineUuid_fd :: "string nullable"
  manufacturer_fd :: "string nullable"
  expirationDate_fd :: "string nullable"
  vaccinationDate_fd :: "string nullable"
  lotNumber_fd :: "string nullable"
  sequences_fd :: "ImmunizationSequence list nullable"
  currentDose_fd :: "ImmunizationSequence nullable"

definition initialState :: ImmunizationFormState where
  "initialState =
     \<lparr>vaccineName = Val [],
      vaccineUuid = Val [],
      immunizationObsUuid = Val [],
      vaccinationDate = Null,
      currentDose = defaultDose,
      sequences = [],
      expirationDate = Null,
      lotNumber = Val [],
      manufacturer = Val [],
      formChanged = False\<rparr>"

section \<open>The merge update\<close>

text \<open>
  \<open>updateSingle(name, value)\<close> is typed \<open>name: T extends keyof ImmunizationFormState\<close>,
  \<open>value: ImmunizationFormState[T]\<close>: a field name together with a value of that field's
  type. The pair is one constructor per field.
\<close>

datatype field_name =
    F_vaccineName | F_vaccineUuid | F_immunizationObsUuid | F_vaccinationDate
  | F_currentDose | F_sequences | F_expirationDate | F_lotNumber | F_manufacturer
  | F_formChanged

datatype field_value =
    V_string "string nullable"
  | V_dose ImmunizationSequence
  | V_doses "ImmunizationSequence list"
  | V_bool bool

datatype field_update =
    Set_vaccineName "string nullable"
  | Set_vaccineUuid "string nullable"
  | Set_immunizationObsUuid "string nullable"
  | Set_vaccinationDate "string nullable"
  | Set_currentDose ImmunizationSequence
  | Set_sequences "ImmunizationSequence list"
  | Set_expirationDate "string nullable"
  | Set_lotNumber "string nullable"
  | Set_manufacturer "string nullable"
  | Set_formChanged bool

text \<open>\<open>setFormState(state => ({ ...state, [name]: value }))\<close>, applied to the state.\<close>

fun updateSingle :: "field_update \<Rightarrow> ImmunizationFormState \<Rightarrow> ImmunizationFormState" where
  "updateSingle (Set_vaccineName v) state = state\<lparr>vaccineName := v\<rparr>"
| "updateSingle (Set_vaccineUuid v) state = state\<lparr>vaccineUuid := v\<rparr>"
| "updateSingle (Set_immunizationObsUuid v) state = state\<lparr>immunizationObsUuid := v\<rparr>"
| "updateSingle (Set_vaccinationDate v) state = state\<lparr>vaccinationDate := v\<rparr>"
| "updateSingle (Set_currentDose v) state = state\<lparr>currentDose := v\<rparr>"
| "updateSingle (Set_sequences v) state = state\<lparr>sequences := v\<rparr>"
| "updateSingle (Set_expirationDate v) state = state\<lparr>expirationDate := v\<rparr>"
| "updateSingle (Set_lotNumber v) state = state\<lparr>lotNumber := v\<rparr>"
| "updateSingle (Set_manufacturer v) state = state\<lparr>manufacturer := v\<rparr>"
| "updateSingle (Set_formChanged v) state = state\<lparr>formChanged := v\<rparr>"

text \<open>Reading a property of the state object by its name, and the two halves of an update.\<close>

fun get_field :: "field_name \<Rightarrow> ImmunizationFormState \<Rightarrow> field_value" where
  "get_field F_vaccineName state = V_string (vaccineName state)"
| "get_field F_vaccineUuid state = V_string (vaccineUuid state)"
| "get_field F_immunizationObsUuid state = V_string (immunizationObsUuid state)"
| "get_field F_vaccinationDate state = V_string (vaccinationDate state)"
| "get_field F_currentDose state = V_dose (currentDose state)"
| "get_field F_sequences state = V_doses (sequences state)"
| "get_field F_expirationDate state = V_string (expirationDate state)"
| "get_field F_lotNumber state = V_string (lotNumber state)"
| "get_field F_manufacturer state = V_string (manufacturer state)"
| "get_field F_formChanged state = V_bool (formChanged state)"

fun update_name :: "field_update \<Rightarrow> field_name" where
  "update_name (Set_vaccineName v) = F_vaccineName"
| "update_name (Set_vaccineUuid v) = F_vaccineUuid"
| "update_name (Set_immunizationObsUuid v) = F_immunizationObsUuid"
| "update_name (Set_vaccinationDate v) = F_vaccinationDate"
| "update_name (Set_currentDose v) = F_currentDose"
| "update_name (Set_sequences v) = F_sequences"
| "update_name (Set_expirationDate v) = F_expirationDate"
| "update_name (Set_lotNumber v) = F_lotNumber"
| "update_name (Set_manufacturer v) = F_manufacturer"
| "update_name (Set_formChanged v) = F_formChanged"

fun update_value :: "field_update \<Rightarrow> field_value" where
  "update_value (Set_vaccineName v) = V_string v"
| "update_value (Set_vaccineUuid v) = V_string v"
| "update_value (Set_immunizationObsUuid v) = V_string v"
| "update_value (Set_vaccinationDate v) = V_string v"
| "update_value (Set_currentDose v) = V_dose v"
| "update_value (Set_sequences v) = V_doses v"
| "update_value (Set_expirationDate v) = V_string v"
| "update_value (Set_lotNumber v) = V_string v"
| "update_value (Set_manufacturer v) = V_string v"
| "update_value (Set_formChanged v) = V_bool v"

section \<open>Modes and buttons\<close>

definition isViewEditMode :: "ImmunizationFormState \<Rightarrow> bool" where
  "isViewEditMode formState = truthy_str (immunizationObsUuid formState)"

definition enableCreateButtons :: "ImmunizationFormState \<Rightarrow> bool" where
  "enableCreateButtons formState =
     (\<not> isViewEditMode formState \<and> truthy_str (vaccinationDate formState))"

definition enableEditButtons :: "ImmunizationFormState \<Rightarrow> bool" where
  "enableEditButtons formState = (isViewEditMode formState \<and> formChanged formState)"

text \<open>The \<open>disabled\<close> attribute of the submit button (lines 294-296).\<close>

definition submitDisabled :: "ImmunizationFormState \<Rightarrow> bool" where
  "submitDisabled formState =
     (if isViewEditMode formState then \<not> enableEditButtons formState
      else \<not> enableCreateButtons formState)"

section \<open>Numeric coercion and \<open>parseInt\<close> on strings\<close>

text \<open>
  The dropdown hands its value to \<open>isNaN\<close> and \<open>parseInt\<close> as a string. Both are
  modelled after the language definition (ECMAScript, StringToNumber and parseInt
  with no radix argument). A string is read here as its sequence of UTF-16 code units,
  each a number; \<open>codeUnits\<close> gives the code units of a text of 8-bit characters.
\<close>

type_synonym jsstring = "nat list"

definition codeUnit :: "char \<Rightarrow> nat" where
  "codeUnit c = of_char c"

definition codeUnits :: "string \<Rightarrow> jsstring" where
  "codeUnits s = map codeUnit s"

text \<open>
  \<open>StrWhiteSpaceChar\<close>: tab, vertical tab, form feed, the byte order mark, the space
  separators of Unicode, and the four line terminators.
\<close>

definition isStrWhiteSpaceChar :: "nat \<Rightarrow> bool" where
  "isStrWhiteSpaceChar c =
     (c \<in> {0x0009, 0x000B, 0x000C, 0xFEFF,
            0x0020, 0x00A0, 0x1680, 0x202F, 0x205F, 0x3000,
            0x000A, 0x000D, 0x2028, 0x2029}
      \<or> (0x2000 \<le> c \<and> c \<le> 0x200A))"

definition trimString :: "jsstring \<Rightarrow> jsstring" where
  "trimString s = rev (dropWhile isStrWhiteSpaceChar (rev (dropWhile isStrWhiteSpaceChar s)))"

text \<open>The value of a digit or letter as a digit of a radix up to 36.\<close>

definition digitValue :: "nat \<Rightarrow> nat option" where
  "digitValue n =
     (if 48 \<le> n \<and> n \<le> 57 then Some (n - 48)
      else if 97 \<le> n \<and> n \<le> 122 then Some (n - 87)
      else if 65 \<le> n \<and> n \<le> 90 then Some (n - 55)
      else None)"

definition isRadixDigit :: "nat \<Rightarrow> nat \<Rightarrow> bool" where
  "isRadixDigit R c = (case digitValue c of None \<Rightarrow> False | Some d \<Rightarrow> d < R)"

definition isDigits :: "nat \<Rightarrow> jsstring \<Rightarrow> bool" where
  "isDigits R ds = (ds \<noteq> [] \<and> dropWhile (isRadixDigit R) ds = [])"

text \<open>\<open>SignedInteger\<close> and the optional \<open>ExponentPart\<close> of a decimal literal.\<close>

fun isSignedInteger :: "jsstring \<Rightarrow> bool" where
  "isSignedInteger [] = False"
| "isSignedInteger (c # cs) =
     (if c = codeUnit CHR ''+'' \<or> c = codeUnit CHR ''-'' then isDigits 10 cs
      else isDigits 10 (c # cs))"

fun isExponentPartOpt :: "jsstring \<Rightarrow> bool" where
  "isExponentPartOpt [] = True"
| "isExponentPartOpt (c # cs) =
     ((c = codeUnit CHR ''e'' \<or> c = codeUnit CHR ''E'') \<and> isSignedInteger cs)"

text \<open>
  \<open>StrUnsignedDecimalLiteral\<close>: \<open>Infinity\<close>, digits with an optional fraction, or a
  fraction alone, each with an optional exponent.
\<close>

definition isStrUnsignedDecimalLiteral :: "jsstring \<Rightarrow> bool" where
  "isStrUnsignedDecimalLiteral s =
     (s = codeUnits ''Infinity'' \<or>
      (let intPart = takeWhile (isRadixDigit 10) s;
           afterInt = dropWhile (isRadixDigit 10) s
       in case afterInt of
            [] \<Rightarrow> intPart \<noteq> []
          | c # cs \<Rightarrow>
              if c = codeUnit CHR ''.''
              then (intPart \<noteq> [] \<or> takeWhile (isRadixDigit 10) cs \<noteq> [])
                   \<and> isExponentPartOpt (dropWhile (isRadixDigit 10) cs)
              else intPart \<noteq> [] \<and> isExponentPartOpt afterInt))"

fun isStrDecimalLiteral :: "jsstring \<Rightarrow> bool" where
  "isStrDecimalLiteral [] = False"
| "isStrDecimalLiteral (c # cs) =
     (if c = codeUnit CHR ''+'' \<or> c = codeUnit CHR ''-'' then isStrUnsignedDecimalLiteral cs
      else isStrUnsignedDecimalLiteral (c # cs))"

text \<open>\<open>NonDecimalIntegerLiteral\<close>: \<open>0b\<close>, \<open>0o\<close> or \<open>0x\<close> (either case) and digits.\<close>

fun isNonDecimalIntegerLiteral :: "jsstring \<Rightarrow> bool" where
  "isNonDecimalIntegerLiteral (z # p # ds) =
     (z = codeUnit CHR ''0'' \<and>
      (if p = codeUnit CHR ''b'' \<or> p = codeUnit CHR ''B'' then isDigits 2 ds
       else if p = codeUnit CHR ''o'' \<or> p = codeUnit CHR ''O'' then isDigits 8 ds
       else if p = codeUnit CHR ''x'' \<or> p = codeUnit CHR ''X'' then isDigits 16 ds
       else False))"
| "isNonDecimalIntegerLiteral _ = False"

text \<open>
  \<open>isNaN(value)\<close> on a string: the string converts to \<open>NaN\<close> exactly when, white space
  trimmed, it is neither empty nor a numeric literal. (The empty string converts to 0,
  and a literal too large for a double converts to an infinity.)
\<close>

definition isNaN :: "jsstring \<Rightarrow> bool" where
  "isNaN inputString =
     (let s = trimString inputString
      in \<not> (s = [] \<or> isStrDecimalLiteral s \<or> isNonDecimalIntegerLiteral s))"

definition digitsValue :: "nat \<Rightarrow> jsstring \<Rightarrow> nat" where
  "digitsValue R ds =
     foldl (\<lambda>acc c. acc * R + (case digitValue c of None \<Rightarrow> 0 | Some d \<Rightarrow> d)) 0 ds"

text \<open>
  The Number value for an integer: the nearest double, a tie going to the even
  significand of 53 bits, and an infinity from \<open>2 ^ 1024\<close> on. Every integer of at most
  53 bits is its own Number value.
\<close>

fun bitLength :: "nat \<Rightarrow> nat" where
  "bitLength n = (if n = 0 then 0 else Suc (bitLength (n div 2)))"

declare bitLength.simps [simp del]

definition numberValue :: "int \<Rightarrow> jsnum" where
  "numberValue x =
     (let a = nat \<bar>x\<bar>;
          e = bitLength a - 53;
          q = a div 2 ^ e;
          r = a mod 2 ^ e;
          q' = (if 2 ^ e < 2 * r \<or> (2 * r = 2 ^ e \<and> odd q) then q + 1 else q);
          m = q' * 2 ^ e
      in if 2 ^ 1024 \<le> m then (if x < 0 then NegInfinity else PosInfinity)
         else Num (if x < 0 then - int m else int m))"

text \<open>
  \<open>parseInt(value)\<close> with no radix: leading white space and one sign are dropped, a
  \<open>0x\<close> prefix selects radix 16, and the longest run of digits is read; no digit at all
  gives \<open>NaN\<close>, and otherwise the result is the Number value of the signed integer the
  digits denote. (For more than twenty significant decimal digits the language lets an
  implementation read the later digits as zeros; the model reads every digit.)
\<close>

definition parseInt :: "jsstring \<Rightarrow> jsnum" where
  "parseInt inputString =
     (let S = dropWhile isStrWhiteSpaceChar inputString;
          sign = (case S of [] \<Rightarrow> 1 | c # _ \<Rightarrow> if c = codeUnit CHR ''-'' then - 1 else (1 :: int));
          S1 = (case S of
                  [] \<Rightarrow> S
                | c # cs \<Rightarrow> if c = codeUnit CHR ''+'' \<or> c = codeUnit CHR ''-'' then cs else S);
          hex = (case S1 of
                   a # b # _ \<Rightarrow>
                     a = codeUnit CHR ''0'' \<and> (b = codeUnit CHR ''x'' \<or> b = codeUnit CHR ''X'')
                 | _ \<Rightarrow> False);
          R = (if hex then 16 else 10);
          S2 = (if hex then drop 2 S1 else S1);
          Z = takeWhile (isRadixDigit R) S2
      in if Z = [] then NaN else numberValue (sign * int (digitsValue R Z)))"

text \<open>
  \<open>a === b\<close> for a sequence number, which may be missing, and a result of \<open>parseInt\<close>.
\<close>

definition strict_eq :: "int nullable \<Rightarrow> jsnum \<Rightarrow> bool" where
  "strict_eq a b =
     (case a of
        Val m \<Rightarrow>
          (case b of
             Num n \<Rightarrow> m = n
           | NaN \<Rightarrow> False
           | PosInfinity \<Rightarrow> False
           | NegInfinity \<Rightarrow> False)
      | Undefined \<Rightarrow> False
      | Null \<Rightarrow> False)"

section \<open>Sequence selector\<close>

definition isNumber :: "jsstring \<Rightarrow> bool" where
  "isNumber v = (\<not> isNaN v)"

text \<open>
  \<open>onDoseSelect\<close> (lines 127-136), with \<open>event.target.value\<close> as \<open>v\<close>. An object
  found by \<open>find\<close> is truthy, so \<open>||\<close> yields the default only when nothing is found.
\<close>

definition onDoseSelect :: "jsstring \<Rightarrow> ImmunizationFormState \<Rightarrow> ImmunizationFormState" where
  "onDoseSelect v formState =
     (let currentDose' =
            (case List.find (\<lambda>s. isNumber v \<and> strict_eq (sequenceNumber s) (parseInt v))
                    (sequences formState) of
               None \<Rightarrow> defaultDose
             | Some s \<Rightarrow> s)
      in updateSingle (Set_currentDose currentDose') formState)"

text \<open>
  The values the dropdown can hand over (lines 177-189): the first option has the value
  \<open>DEFAULT\<close>, and each sequence has an option whose value is its sequence number as
  text. \<open>numberToString\<close> is that text for an integer below \<open>10 ^ 21\<close> in magnitude: a
  minus sign for a negative number, and the decimal digits.
\<close>

fun decimalDigits :: "nat \<Rightarrow> jsstring" where
  "decimalDigits n =
     (if n < 10 then [48 + n] else decimalDigits (n div 10) @ [48 + n mod 10])"

declare decimalDigits.simps [simp del]

definition numberToString :: "int \<Rightarrow> jsstring" where
  "numberToString n =
     (if n < 0 then codeUnit CHR ''-'' # decimalDigits (nat (- n)) else decimalDigits (nat n))"

section \<open>Pre-filling from the navigation parameters\<close>

text \<open>\<open>sequences && sequences?.length > 0\<close>, read as a condition.\<close>

definition hasSequences :: "ImmunizationSequence list nullable \<Rightarrow> bool" where
  "hasSequences seqs =
     (case seqs of Undefined \<Rightarrow> False | Null \<Rightarrow> False | Val xs \<Rightarrow> length xs > 0)"

definition formStateFromParam :: "ImmunizationFormData \<Rightarrow> ImmunizationFormState" where
  "formStateFromParam params =
     \<lparr>vaccineName = vaccineName_fd params,
      vaccineUuid = vaccineUuid_fd params,
      immunizationObsUuid = immunizationObsUuid_fd params,
      vaccinationDate = vaccinationDate_fd params,
      currentDose =
        (case currentDose_fd params of
           Undefined \<Rightarrow> defaultDose | Null \<Rightarrow> defaultDose | Val d \<Rightarrow> d),
      sequences =
        (if hasSequences (sequences_fd params)
         then (case sequences_fd params of Val xs \<Rightarrow> xs | Undefined \<Rightarrow> [] | Null \<Rightarrow> [])
         else []),
      expirationDate = expirationDate_fd params,
      lotNumber = lotNumber_fd params,
      manufacturer = manufacturer_fd params,
      formChanged = False\<rparr>"

text \<open>
  The effect of lines 53-81, run on mount and whenever \<open>props.match.params\<close> changes:
  with a parameter object the state is replaced, without one it is left as it is. The
  effect callback returns nothing, so it registers no cleanup.
\<close>

definition mountEffect ::
  "ImmunizationFormData nullable \<Rightarrow> ImmunizationFormState \<Rightarrow> ImmunizationFormState" where
  "mountEffect params formState =
     (case params of
        Undefined \<Rightarrow> formState
      | Null \<Rightarrow> formState
      | Val p \<Rightarrow> formStateFromParam p)"

section \<open>Calls into the host\<close>

text \<open>
  What a handler does besides updating the state is recorded as the list of calls it
  makes, in order. \<open>'r\<close> is the resource built by the mapper, \<open>'e\<close> the reason of a
  rejected request; an \<open>AbortController\<close> is identified by a number.
\<close>

datatype ('r, 'e) effect =
    PreventDefault
  | SavePatientImmunization 'r "string nullable" "string nullable" nat
  | AbortRequest nat
  | HistoryPush string
  | CloseComponent
  | EntryStarted
  | EntryCancelled
  | ConfirmPrompt string
  | CreateErrorHandler 'e

definition immunizationsPath :: "string nullable \<Rightarrow> string" where
  "immunizationsPath patientUuid = ''/patient/'' @ template_str patientUuid @ ''/chart/immunizations''"

section \<open>Submit pipeline\<close>

text \<open>The object \<open>immunization\<close> of lines 89-99; it has no \<open>sequences\<close> property.\<close>

definition immunization :: "string nullable \<Rightarrow> ImmunizationFormState \<Rightarrow> ImmunizationFormData" where
  "immunization patientUuid formState =
     \<lparr>patientUuid_fd = patientUuid,
      immunizationObsUuid_fd = immunizationObsUuid formState,
      vaccineName_fd = vaccineName formState,
      vaccineUuid_fd = vaccineUuid formState,
      manufacturer_fd = manufacturer formState,
      expirationDate_fd = expirationDate formState,
      vaccinationDate_fd = vaccinationDate formState,
      lotNumber_fd = lotNumber formState,
      sequences_fd = Undefined,
      currentDose_fd = Val (currentDose formState)\<rparr>"

text \<open>
  What the component reads from its surroundings: the translation lookup \<open>t\<close>, the
  answer of \<open>confirm\<close>, the current patient, the identifiers of the session, and the
  mapper of the \<open>immunization-mapper\<close> module, which is taken as given.
\<close>

record 'r host =
  translate :: "string \<Rightarrow> string \<Rightarrow> string"
  confirm :: "string \<Rightarrow> bool"
  patientUuid :: "string nullable"
  currentVisitUuid :: "string nullable"
  currentLocationUuid :: "string nullable"
  currentProviderUuid :: "string nullable"
  mapToFHIRImmunizationResource ::
    "ImmunizationFormData \<Rightarrow> string nullable \<Rightarrow> string nullable \<Rightarrow> string nullable \<Rightarrow> 'r"

text \<open>
  \<open>handleFormSubmit\<close> (lines 83-116). The first component is what the call does, the
  second what the function it returns, \<open>() => abortController.abort()\<close>, would do if
  it were called. \<open>abortController\<close> numbers the controller created by this call.
\<close>

definition handleFormSubmit ::
  "'r host \<Rightarrow> nat \<Rightarrow> ImmunizationFormState \<Rightarrow> ('r, 'e) effect list \<times> ('r, 'e) effect list" where
  "handleFormSubmit h abortController formState =
     ([PreventDefault,
       SavePatientImmunization
         (mapToFHIRImmunizationResource h (immunization (patientUuid h) formState)
            (currentVisitUuid h) (currentLocationUuid h) (currentProviderUuid h))
         (patientUuid h)
         (immunizationObsUuid formState)
         abortController],
      [AbortRequest abortController])"

definition navigate :: "string nullable \<Rightarrow> ('r, 'e) effect list" where
  "navigate pid = [HistoryPush (immunizationsPath pid), CloseComponent]"

text \<open>How the promise of the save request settles, and the two callbacks of \<open>then\<close>.\<close>

record Response =
  status :: int

datatype 'e settled = Fulfilled Response | Rejected 'e

definition onSaveSettled :: "string nullable \<Rightarrow> 'e settled \<Rightarrow> ('r, 'e) effect list" where
  "onSaveSettled pid outcome =
     (case outcome of
        Fulfilled response \<Rightarrow> (if status response = 200 then navigate pid else [])
      | Rejected reason \<Rightarrow> [CreateErrorHandler reason])"

section \<open>Close and cancel\<close>

definition closeForm ::
  "(string \<Rightarrow> string \<Rightarrow> string) \<Rightarrow> (string \<Rightarrow> bool) \<Rightarrow> string nullable \<Rightarrow>
     ImmunizationFormState \<Rightarrow> ('r, 'e) effect list" where
  "closeForm t answer pid formState =
     (let defaultConfirmMessage =
            ''There is ongoing work, are you sure you want to close this tab?'';
          confirmMessage = t ''close form confirm message'' defaultConfirmMessage;
          prompt = (if formChanged formState then [ConfirmPrompt confirmMessage] else []);
          userConfirmed = (if formChanged formState then answer confirmMessage else False)
      in prompt @
         (if userConfirmed \<and> formChanged formState
          then [EntryCancelled, HistoryPush (immunizationsPath pid), CloseComponent]
          else if \<not> formChanged formState
          then [EntryCancelled, HistoryPush (immunizationsPath pid), CloseComponent]
          else []))"

section \<open>The form's events\<close>

text \<open>The change listener of the form element (lines 152-155).\<close>

definition formOnChange ::
  "ImmunizationFormState \<Rightarrow> ImmunizationFormState \<times> ('r, 'e) effect list" where
  "formOnChange formState = (updateSingle (Set_formChanged True) formState, [EntryStarted])"

text \<open>
  The events of a component: \<open>Mount\<close> runs the effect of lines 53-81 with the
  navigation parameters, the others are those the markup wires to handlers. A change of
  an input runs the input's own listener and then, the event bubbling, the form's. The submit listener is
  \<open>onSubmit={handleFormSubmit}\<close>: an event listener's return value is not used by
  the framework, and nothing else in the component holds it. When the component is
  taken down the framework runs the cleanups that effect callbacks returned; the only
  effect callback of the component returns none. (The dropdown is rendered only while
  the state has sequences, and the browser decides when a submit event is fired; the
  model says what each listener does when it is called. The text of an event is a text
  of 8-bit characters; the dropdown's listener receives its code units.)
\<close>

datatype 'e event =
    Mount "ImmunizationFormData nullable"
  | SelectSequence string
  | InputVaccinationDate string
  | InputExpirationDate string
  | InputLotNumber string
  | InputManufacturer string
  | SubmitForm
  | ClickCancel
  | SaveSettled "'e settled"
  | Unmount

record component =
  form :: ImmunizationFormState
  controllersCreated :: nat

definition changed ::
  "component \<Rightarrow> ImmunizationFormState \<Rightarrow> component \<times> ('r, 'e) effect list" where
  "changed inst st = (let (st', out) = formOnChange st in (inst\<lparr>form := st'\<rparr>, out))"

fun handle :: "'r host \<Rightarrow> component \<Rightarrow> 'e event \<Rightarrow> component \<times> ('r, 'e) effect list" where
  "handle h inst (Mount params) = (inst\<lparr>form := mountEffect params (form inst)\<rparr>, [])"
| "handle h inst (SelectSequence v) = changed inst (onDoseSelect (codeUnits v) (form inst))"
| "handle h inst (InputVaccinationDate v) =
     changed inst (updateSingle (Set_vaccinationDate (Val v)) (form inst))"
| "handle h inst (InputExpirationDate v) =
     changed inst (updateSingle (Set_expirationDate (Val v)) (form inst))"
| "handle h inst (InputLotNumber v) =
     changed inst (updateSingle (Set_lotNumber (Val v)) (form inst))"
| "handle h inst (InputManufacturer v) =
     changed inst (updateSingle (Set_manufacturer (Val v)) (form inst))"
| "handle h inst SubmitForm =
     (inst\<lparr>controllersCreated := Suc (controllersCreated inst)\<rparr>,
      fst (handleFormSubmit h (controllersCreated inst) (form inst)))"
| "handle h inst ClickCancel =
     (inst, closeForm (translate h) (confirm h) (patientUuid h) (form inst))"
| "handle h inst (SaveSettled outcome) = (inst, onSaveSettled (patientUuid h) outcome)"
| "handle h inst Unmount = (inst, [])"

text \<open>A sequence of events, from a given component state: the final one and all calls made.\<close>

fun run :: "'r host \<Rightarrow> component \<Rightarrow> 'e event list \<Rightarrow> component \<times> ('r, 'e) effect list" where
  "run h inst [] = (inst, [])"
| "run h inst (e # es) =
     (let (inst', out) = handle h inst e;
          (inst'', out') = run h inst' es
      in (inst'', out @ out'))"

section \<open>Example inputs\<close>

definition doseOne :: ImmunizationSequence where
  "doseOne = \<lparr>sequenceLabel = Val ''Dose 1'', sequenceNumber = Val 1\<rparr>"

definition doseTwelve :: ImmunizationSequence where
  "doseTwelve = \<lparr>sequenceLabel = Val ''Dose 12'', sequenceNumber = Val 12\<rparr>"

definition doseLate :: ImmunizationSequence where
  "doseLate = \<lparr>sequenceLabel = Val ''Late'', sequenceNumber = Val 9007199254740992\<rparr>"

definition exampleParams :: ImmunizationFormData where
  "exampleParams =
     \<lparr>patientUuid_fd = Val ''p1'',
      immunizationObsUuid_fd = Val ''obs-1'',
      vaccineName_fd = Val ''Rotavirus'',
      vaccineUuid_fd = Val ''rota-uuid'',
      manufacturer_fd = Val ''Acme'',
      expirationDate_fd = Val ''2021-06-30'',
      vaccinationDate_fd = Val ''2020-01-15'',
      lotNumber_fd = Val ''L-77'',
      sequences_fd = Val [doseOne, doseTwelve],
      currentDose_fd = Val doseOne\<rparr>"

definition exampleHost :: "ImmunizationFormData host" where
  "exampleHost =
     \<lparr>translate = (\<lambda>key fallback. fallback),
      confirm = (\<lambda>message. False),
      patientUuid = Val ''p1'',
      currentVisitUuid = Undefined,
      currentLocationUuid = Val ''loc-1'',
      currentProviderUuid = Val ''prov-1'',
      mapToFHIRImmunizationResource = (\<lambda>data visit location provider. data)\<rparr>"

section \<open>Auxiliary facts\<close>

lemma truthy_str_iff: "truthy_str v \<longleftrightarrow> (\<exists>s. v = Val s \<and> s \<noteq> [])"
  by (cases v) (simp_all add: truthy_str_def)

lemma truthy_str_unset: "\<not> truthy_str v \<longleftrightarrow> v \<in> {Undefined, Null, Val []}"
  by (cases v) (simp_all add: truthy_str_def)

lemma get_field_updateSingle:
  "get_field f (updateSingle u state) =
     (if f = update_name u then update_value u else get_field f state)"
  by (cases u; cases f) simp_all

lemma find_guarded:
  "List.find (\<lambda>s. g \<and> P s) xs = (if g then List.find P xs else None)"
  by (induction xs) auto

lemma find_never: "List.find (\<lambda>s. False) xs = None"
  by (induction xs) auto

lemma strict_eq_Num: "strict_eq a (Num n) \<longleftrightarrow> a = Val n"
  by (cases a) (auto simp: strict_eq_def)

lemma strict_eq_other:
  "\<not> strict_eq a NaN" "\<not> strict_eq a PosInfinity" "\<not> strict_eq a NegInfinity"
  by (cases a; simp add: strict_eq_def)+

lemmas parse_defs =
  codeUnits_def codeUnit_def isStrWhiteSpaceChar_def trimString_def digitValue_def
  isRadixDigit_def isDigits_def isStrUnsignedDecimalLiteral_def digitsValue_def

lemma bitLength_numeral:
  "bitLength 0 = 0"
  "bitLength (Suc 0) = 1"
  "bitLength (numeral k) = Suc (bitLength (numeral k div 2))"
  by (simp_all add: bitLength.simps [of 0] bitLength.simps [of "Suc 0"]
        bitLength.simps [of "numeral k"])

lemmas parseInt_defs = parseInt_def numberValue_def bitLength_numeral Let_def parse_defs

lemma isNaN_DEFAULT: "isNaN (codeUnits ''DEFAULT'')"
  by (simp add: isNaN_def parse_defs)

lemma isNaN_12abc: "isNaN (codeUnits ''12abc'')"
  by (simp add: isNaN_def parse_defs)

lemma parseInt_12abc: "parseInt (codeUnits ''12abc'') = Num 12"
  by (simp add: parseInt_defs)

lemma isNaN_12: "\<not> isNaN (codeUnits ''12'')"
  by (simp add: isNaN_def parse_defs)

lemma parseInt_12: "parseInt (codeUnits ''12'') = Num 12"
  by (simp add: parseInt_defs)

lemma isNaN_1_5: "\<not> isNaN (codeUnits ''1.5'')"
  by (simp add: isNaN_def parse_defs)

lemma parseInt_1_5: "parseInt (codeUnits ''1.5'') = Num 1"
  by (simp add: parseInt_defs)

lemma isNaN_above_2_53: "\<not> isNaN (codeUnits ''9007199254740993'')"
  by (simp add: isNaN_def parse_defs)

lemma parseInt_above_2_53: "parseInt (codeUnits ''9007199254740993'') = Num 9007199254740992"
  by (simp add: parseInt_defs)

lemma isRadixDigit_10_iff: "isRadixDigit 10 c \<longleftrightarrow> 48 \<le> c \<and> c \<le> 57"
  by (auto simp: isRadixDigit_def digitValue_def)

lemma digit_not_space: "isRadixDigit 10 c \<Longrightarrow> \<not> isStrWhiteSpaceChar c"
  by (auto simp: isRadixDigit_10_iff isStrWhiteSpaceChar_def)

lemma decimalDigits_digits: "c \<in> set (decimalDigits n) \<Longrightarrow> isRadixDigit 10 c"
proof (induction n arbitrary: c rule: decimalDigits.induct)
  case (1 n)
  show ?case
  proof (cases "n < 10")
    case True
    with "1.prems" show ?thesis
      by (simp add: decimalDigits.simps [of n] isRadixDigit_10_iff)
  next
    case False
    with "1.prems" have "c \<in> set (decimalDigits (n div 10)) \<or> c = 48 + n mod 10"
      by (auto simp: decimalDigits.simps [of n])
    then show ?thesis
    proof
      assume "c \<in> set (decimalDigits (n div 10))"
      with False "1.IH" show ?thesis by simp
    next
      assume "c = 48 + n mod 10"
      moreover have "n mod 10 < 10" by simp
      ultimately show ?thesis by (simp add: isRadixDigit_10_iff)
    qed
  qed
qed

lemma decimalDigits_nonempty: "decimalDigits n \<noteq> []"
  by (simp add: decimalDigits.simps [of n])

lemma digitValue_digit: "d < 10 \<Longrightarrow> digitValue (48 + d) = Some d"
  by (simp add: digitValue_def)

lemma digitsValue_snoc:
  "digitsValue R (ds @ [c]) =
     digitsValue R ds * R + (case digitValue c of None \<Rightarrow> 0 | Some d \<Rightarrow> d)"
  by (simp add: digitsValue_def)

lemma digitsValue_decimalDigits: "digitsValue 10 (decimalDigits n) = n"
proof (induction n rule: decimalDigits.induct)
  case (1 n)
  show ?case
  proof (cases "n < 10")
    case True
    then show ?thesis
      by (simp add: decimalDigits.simps [of n] digitsValue_def digitValue_digit)
  next
    case False
    have "n mod 10 < 10" by simp
    then have "digitValue (48 + n mod 10) = Some (n mod 10)" by (rule digitValue_digit)
    with False "1.IH" show ?thesis
      by (simp add: decimalDigits.simps [of n] digitsValue_snoc)
  qed
qed

lemma bitLength_le: "n < 2 ^ k \<Longrightarrow> bitLength n \<le> k"
proof (induction n arbitrary: k rule: bitLength.induct)
  case (1 n)
  show ?case
  proof (cases "n = 0")
    case True
    then show ?thesis by (simp add: bitLength.simps [of 0])
  next
    case False
    with "1.prems" obtain j where k: "k = Suc j" by (cases k) auto
    with "1.prems" have "n div 2 < 2 ^ j" by auto
    with False "1.IH" have "bitLength (n div 2) \<le> j" by simp
    with False k show ?thesis by (simp add: bitLength.simps [of n])
  qed
qed

lemma numberValue_exact:
  assumes small: "\<bar>x\<bar> < 2 ^ 53"
  shows "numberValue x = Num x"
proof -
  define a where "a = nat \<bar>x\<bar>"
  from small have a53: "a < 2 ^ 53" by (simp add: a_def nat_less_iff)
  then have "bitLength a \<le> 53" by (rule bitLength_le)
  then have e: "bitLength a - 53 = 0" by simp
  have "(2::nat) ^ 53 \<le> 2 ^ 1024" by (rule power_increasing) simp_all
  with a53 have fin: "\<not> (2::nat) ^ 1024 \<le> a" by linarith
  have "numberValue x = Num (if x < 0 then - int a else int a)"
    unfolding numberValue_def a_def [symmetric] Let_def e using fin by simp
  also have "(if x < 0 then - int a else int a) = x" by (simp add: a_def)
  finally show ?thesis .
qed

lemma trim_id:
  assumes "xs \<noteq> []" and "\<not> P (hd xs)" and "\<not> P (last xs)"
  shows "rev (dropWhile P (rev (dropWhile P xs))) = xs"
proof -
  from assms have a: "dropWhile P xs = xs" by (cases xs) simp_all
  from assms have "rev xs \<noteq> []" and "\<not> P (hd (rev xs))" by (simp_all add: hd_rev)
  then have "dropWhile P (rev xs) = rev xs" by (cases "rev xs") simp_all
  with a show ?thesis by simp
qed

lemma all_digits_take: "(\<And>c. c \<in> set ds \<Longrightarrow> isRadixDigit 10 c) \<Longrightarrow> takeWhile (isRadixDigit 10) ds = ds"
  by (simp add: takeWhile_eq_all_conv)

lemma all_digits_drop: "(\<And>c. c \<in> set ds \<Longrightarrow> isRadixDigit 10 c) \<Longrightarrow> dropWhile (isRadixDigit 10) ds = []"
  by simp

lemma digits_unsigned_literal:
  assumes "ds \<noteq> []" and "\<And>c. c \<in> set ds \<Longrightarrow> isRadixDigit 10 c"
  shows "isStrUnsignedDecimalLiteral ds"
proof -
  have take: "takeWhile (isRadixDigit 10) ds = ds" using assms(2) by (rule all_digits_take)
  have drop: "dropWhile (isRadixDigit 10) ds = []" using assms(2) by (rule all_digits_drop)
  show ?thesis
    unfolding isStrUnsignedDecimalLiteral_def Let_def take drop using assms(1) by simp
qed

lemma parseInt_digits:
  assumes "ds \<noteq> []" and "\<And>c. c \<in> set ds \<Longrightarrow> isRadixDigit 10 c"
  shows "parseInt ds = numberValue (int (digitsValue 10 ds))"
    and "parseInt (codeUnit CHR ''-'' # ds) = numberValue (- int (digitsValue 10 ds))"
proof -
  obtain c cs where ds: "ds = c # cs" using assms(1) by (cases ds) auto
  have c: "isRadixDigit 10 c" using assms(2) ds by simp
  then have c_bounds: "48 \<le> c" "c \<le> 57" by (simp_all add: isRadixDigit_10_iff)
  have nohex: "b \<noteq> codeUnit CHR ''x'' \<and> b \<noteq> codeUnit CHR ''X''" if "b \<in> set cs" for b
  proof -
    from that have "isRadixDigit 10 b" using assms(2) ds by simp
    then show ?thesis by (auto simp: isRadixDigit_10_iff codeUnit_def)
  qed
  have hex: "(case ds of
                a # b # _ \<Rightarrow>
                  a = codeUnit CHR ''0'' \<and> (b = codeUnit CHR ''x'' \<or> b = codeUnit CHR ''X'')
              | _ \<Rightarrow> False) = False"
    using nohex ds by (cases cs) auto
  have take: "takeWhile (isRadixDigit 10) ds = ds" using assms(2) by (rule all_digits_take)
  have nows: "\<not> isStrWhiteSpaceChar c" using c by (rule digit_not_space)
  have nosign: "c \<noteq> codeUnit CHR ''+''" "c \<noteq> codeUnit CHR ''-''"
    using c_bounds by (simp_all add: codeUnit_def)
  have S: "dropWhile isStrWhiteSpaceChar ds = ds" using nows ds by simp
  have sign: "(case ds of [] \<Rightarrow> 1 | c # _ \<Rightarrow> if c = codeUnit CHR ''-'' then - 1 else (1::int)) = 1"
    using nosign ds by simp
  have S1: "(case ds of
               [] \<Rightarrow> ds
             | c # cs \<Rightarrow> if c = codeUnit CHR ''+'' \<or> c = codeUnit CHR ''-'' then cs else ds) = ds"
    using nosign ds by simp
  show "parseInt ds = numberValue (int (digitsValue 10 ds))"
    unfolding parseInt_def Let_def S sign S1 hex if_False take using assms(1) by simp
  have minus_nows: "\<not> isStrWhiteSpaceChar (codeUnit CHR ''-'')"
    by (simp add: isStrWhiteSpaceChar_def codeUnit_def)
  have S': "dropWhile isStrWhiteSpaceChar (codeUnit CHR ''-'' # ds) = codeUnit CHR ''-'' # ds"
    using minus_nows by simp
  have sign': "(case codeUnit CHR ''-'' # ds of
                  [] \<Rightarrow> 1
                | c # _ \<Rightarrow> if c = codeUnit CHR ''-'' then - 1 else (1::int)) = - 1"
    by simp
  have S1': "(case codeUnit CHR ''-'' # ds of
                [] \<Rightarrow> codeUnit CHR ''-'' # ds
              | c # cs \<Rightarrow>
                  if c = codeUnit CHR ''+'' \<or> c = codeUnit CHR ''-'' then cs
                  else codeUnit CHR ''-'' # ds) = ds"
    by simp
  show "parseInt (codeUnit CHR ''-'' # ds) = numberValue (- int (digitsValue 10 ds))"
    unfolding parseInt_def Let_def S' sign' S1' hex if_False take using assms(1) by simp
qed

lemma isNaN_digits:
  assumes "ds \<noteq> []" and "\<And>c. c \<in> set ds \<Longrightarrow> isRadixDigit 10 c"
  shows "\<not> isNaN ds" and "\<not> isNaN (codeUnit CHR ''-'' # ds)"
proof -
  have lit: "isStrUnsignedDecimalLiteral ds" using assms by (rule digits_unsigned_literal)
  have hd_ok: "\<not> isStrWhiteSpaceChar (hd ds)"
    using assms by (cases ds) (simp_all add: digit_not_space)
  have last_ok: "\<not> isStrWhiteSpaceChar (last ds)"
    using assms by (simp add: digit_not_space)
  have trim: "trimString ds = ds"
    unfolding trimString_def using assms(1) hd_ok last_ok by (rule trim_id)
  have "isRadixDigit 10 (hd ds)" using assms by (cases ds) simp_all
  then have nosign: "hd ds \<noteq> codeUnit CHR ''+''" "hd ds \<noteq> codeUnit CHR ''-''"
    by (auto simp: isRadixDigit_10_iff codeUnit_def)
  have "isStrDecimalLiteral ds"
    using lit nosign assms(1) by (cases ds) simp_all
  then show "\<not> isNaN ds" by (simp add: isNaN_def trim)
  have minus_nows: "\<not> isStrWhiteSpaceChar (codeUnit CHR ''-'')"
    by (simp add: isStrWhiteSpaceChar_def codeUnit_def)
  have "trimString (codeUnit CHR ''-'' # ds) = codeUnit CHR ''-'' # ds"
    unfolding trimString_def
  proof (rule trim_id)
    show "codeUnit CHR ''-'' # ds \<noteq> []" by simp
    show "\<not> isStrWhiteSpaceChar (hd (codeUnit CHR ''-'' # ds))" using minus_nows by simp
    show "\<not> isStrWhiteSpaceChar (last (codeUnit CHR ''-'' # ds))"
      using last_ok assms(1) by simp
  qed
  moreover have "isStrDecimalLiteral (codeUnit CHR ''-'' # ds)" using lit by simp
  ultimately show "\<not> isNaN (codeUnit CHR ''-'' # ds)" by (simp add: isNaN_def)
qed

lemma numberToString_parses:
  assumes "\<bar>n\<bar> < 2 ^ 53"
  shows "isNumber (numberToString n)" and "parseInt (numberToString n) = Num n"
proof -
  let ?ds = "decimalDigits (nat \<bar>n\<bar>)"
  have ne: "?ds \<noteq> []" by (rule decimalDigits_nonempty)
  have dg: "\<And>c. c \<in> set ?ds \<Longrightarrow> isRadixDigit 10 c" by (rule decimalDigits_digits)
  have val: "digitsValue 10 ?ds = nat \<bar>n\<bar>" by (rule digitsValue_decimalDigits)
  show "isNumber (numberToString n)"
  proof (cases "n < 0")
    case True
    then have "numberToString n = codeUnit CHR ''-'' # ?ds" by (simp add: numberToString_def)
    then show ?thesis using isNaN_digits(2) [OF ne dg] by (simp add: isNumber_def)
  next
    case False
    then have "numberToString n = ?ds" by (simp add: numberToString_def)
    then show ?thesis using isNaN_digits(1) [OF ne dg] by (simp add: isNumber_def)
  qed
  show "parseInt (numberToString n) = Num n"
  proof (cases "n < 0")
    case True
    then have "numberToString n = codeUnit CHR ''-'' # ?ds" by (simp add: numberToString_def)
    then have "parseInt (numberToString n) = numberValue (- int (nat \<bar>n\<bar>))"
      using parseInt_digits(2) [OF ne dg] val by simp
    also have "- int (nat \<bar>n\<bar>) = n" using True by simp
    finally show ?thesis using numberValue_exact [OF assms] by simp
  next
    case False
    then have "numberToString n = ?ds" by (simp add: numberToString_def)
    then have "parseInt (numberToString n) = numberValue (int (nat \<bar>n\<bar>))"
      using parseInt_digits(1) [OF ne dg] val by simp
    also have "int (nat \<bar>n\<bar>) = n" using False by simp
    finally show ?thesis using numberValue_exact [OF assms] by simp
  qed
qed

lemma onDoseSelect_eq:
  "onDoseSelect v formState =
     formState\<lparr>currentDose :=
       (if isNumber v
        then (case parseInt v of
                Num n \<Rightarrow>
                  (case List.find (\<lambda>s. sequenceNumber s = Val n) (sequences formState) of
                     None \<Rightarrow> defaultDose
                   | Some s \<Rightarrow> s)
              | NaN \<Rightarrow> defaultDose
              | PosInfinity \<Rightarrow> defaultDose
              | NegInfinity \<Rightarrow> defaultDose)
        else defaultDose)\<rparr>"
  by (cases "parseInt v")
     (simp_all add: onDoseSelect_def find_guarded strict_eq_Num strict_eq_other find_never)

lemma form_changed: "form (fst (changed inst st)) = st\<lparr>formChanged := True\<rparr>"
  by (simp add: changed_def formOnChange_def)

lemma handle_no_abort: "AbortRequest k \<notin> set (snd (handle h inst e))"
  by (cases e)
     (auto simp: changed_def formOnChange_def handleFormSubmit_def closeForm_def
        onSaveSettled_def navigate_def Let_def split: settled.splits if_splits)

lemma run_no_abort: "AbortRequest k \<notin> set (snd (run h inst es))"
proof (induction es arbitrary: inst)
  case Nil
  show ?case by simp
next
  case (Cons e es)
  obtain inst' out where step: "handle h inst e = (inst', out)"
    by (cases "handle h inst e")
  obtain inst'' out' where rest: "run h inst' es = (inst'', out')"
    by (cases "run h inst' es")
  have "AbortRequest k \<notin> set out"
    using handle_no_abort [of k h inst e] step by simp
  moreover have "AbortRequest k \<notin> set out'"
    using Cons.IH [of inst'] rest by simp
  ultimately show ?case
    using step rest by simp
qed

section \<open>Submit pipeline: how the save request settles\<close>

text \<open>
  C1, as stated, asks that a response resolved with a status other than 200 be forwarded
  to the error handler. The fulfilment callback is \<open>response.status === 200 && navigate()\<close>
  and does nothing else: on a response resolved with status 201 the component makes no
  call at all, so nothing reaches \<open>createErrorHandler\<close>.
\<close>

theorem C1_resolved_201_reaches_no_error_handler:
  "onSaveSettled (Val ''p1'') (Fulfilled \<lparr>status = 201\<rparr>) = ([] :: (unit, string) effect list)"
  by (simp add: onSaveSettled_def)

text \<open>
  C1, amended. A save resolved with status 200 pushes
  \<open>/patient/{patientUuid}/chart/immunizations\<close> and then calls \<open>closeComponent\<close>; a save
  resolved with any other status does nothing (no navigation, no close signal, no call
  of the error handler); a rejected save does not navigate or close and hands the reason
  to \<open>createErrorHandler\<close>.
\<close>

theorem C1_save_settled:
  "(status r = 200 \<longrightarrow>
      onSaveSettled pid (Fulfilled r :: 'e settled) =
        ([HistoryPush (''/patient/'' @ template_str pid @ ''/chart/immunizations''),
          CloseComponent] :: ('r, 'e) effect list))
   \<and> (status r \<noteq> 200 \<longrightarrow>
        onSaveSettled pid (Fulfilled r :: 'e settled) = ([] :: ('r, 'e) effect list))
   \<and> onSaveSettled pid (Rejected e) = ([CreateErrorHandler e] :: ('r, 'e) effect list)"
  by (simp add: onSaveSettled_def navigate_def immunizationsPath_def)

theorem C1_save_settled_witness:
  "onSaveSettled (Val ''p1'') (Fulfilled \<lparr>status = 200\<rparr>) =
     ([HistoryPush ''/patient/p1/chart/immunizations'', CloseComponent]
        :: (unit, string) effect list)
   \<and> onSaveSettled (Val ''p1'') (Fulfilled \<lparr>status = 404\<rparr>) = ([] :: (unit, string) effect list)
   \<and> onSaveSettled (Val ''p1'') (Rejected ''offline'') =
       ([CreateErrorHandler ''offline''] :: (unit, string) effect list)"
  using
    C1_save_settled [where 'r = unit and r = "\<lparr>status = 200\<rparr>" and pid = "Val ''p1''"
      and e = "''offline''"]
    C1_save_settled [where 'r = unit and r = "\<lparr>status = 404\<rparr>" and pid = "Val ''p1''"
      and e = "''offline''"]
  by (simp add: template_str_def)

section \<open>Sequence selector\<close>

text \<open>
  C2. Selecting a value changes \<open>currentDose\<close> and nothing else. If the value is
  numeric and parses as the integer \<open>n\<close>, the new dose is the first sequence of the list
  whose \<open>sequenceNumber\<close> is \<open>n\<close>; in every other case (a value that is not numeric,
  such as the sentinel \<open>DEFAULT\<close> of the first option, a value from which no integer
  is read, or no sequence with that number) the new dose is the empty default. The
  function is total: no value and no list raises.
\<close>

theorem C2_onDoseSelect:
  "onDoseSelect v formState =
     formState\<lparr>currentDose :=
       (if isNumber v
        then (case parseInt v of
                Num n \<Rightarrow>
                  (case List.find (\<lambda>s. sequenceNumber s = Val n) (sequences formState) of
                     None \<Rightarrow> defaultDose
                   | Some s \<Rightarrow> s)
              | NaN \<Rightarrow> defaultDose
              | PosInfinity \<Rightarrow> defaultDose
              | NegInfinity \<Rightarrow> defaultDose)
        else defaultDose)\<rparr>
   \<and> currentDose (onDoseSelect (codeUnits ''DEFAULT'') formState) = defaultDose"
proof -
  have "\<not> isNumber (codeUnits ''DEFAULT'')"
    by (simp add: isNumber_def isNaN_DEFAULT)
  then have "currentDose (onDoseSelect (codeUnits ''DEFAULT'') formState) = defaultDose"
    by (simp add: onDoseSelect_eq)
  then show ?thesis
    using onDoseSelect_eq [of v formState] by simp
qed

theorem C2_onDoseSelect_witness:
  "currentDose (onDoseSelect (codeUnits ''12'') (initialState\<lparr>sequences := [doseOne, doseTwelve]\<rparr>))
     = doseTwelve
   \<and> currentDose
        (onDoseSelect (codeUnits ''DEFAULT'') (initialState\<lparr>sequences := [doseOne, doseTwelve]\<rparr>))
     = defaultDose
   \<and> currentDose
        (onDoseSelect (codeUnits ''1.5'') (initialState\<lparr>sequences := [doseOne, doseTwelve]\<rparr>))
     = doseOne
   \<and> currentDose
        (onDoseSelect (codeUnits ''12abc'') (initialState\<lparr>sequences := [doseOne, doseTwelve]\<rparr>))
     = defaultDose
   \<and> currentDose
        (onDoseSelect (codeUnits ''9007199254740993'')
           (initialState\<lparr>sequences := [doseOne, doseLate]\<rparr>))
     = doseLate"
  using
    C2_onDoseSelect [of "codeUnits ''12''" "initialState\<lparr>sequences := [doseOne, doseTwelve]\<rparr>"]
    C2_onDoseSelect [of "codeUnits ''DEFAULT''"
      "initialState\<lparr>sequences := [doseOne, doseTwelve]\<rparr>"]
    C2_onDoseSelect [of "codeUnits ''1.5''" "initialState\<lparr>sequences := [doseOne, doseTwelve]\<rparr>"]
    C2_onDoseSelect [of "codeUnits ''12abc''"
      "initialState\<lparr>sequences := [doseOne, doseTwelve]\<rparr>"]
    C2_onDoseSelect [of "codeUnits ''9007199254740993''"
      "initialState\<lparr>sequences := [doseOne, doseLate]\<rparr>"]
  by (simp add: isNumber_def isNaN_12 isNaN_DEFAULT isNaN_1_5 isNaN_12abc isNaN_above_2_53
      parseInt_12 parseInt_1_5 parseInt_above_2_53 doseOne_def doseTwelve_def doseLate_def)

text \<open>
  X1. On the values the dropdown offers for the sequences of the list, the selection is
  always the sequence asked for: when a sequence of the list has the integral number
  \<open>n\<close>, below \<open>2 ^ 53\<close> in magnitude, selecting the option whose value is the text of
  \<open>n\<close> makes \<open>currentDose\<close> the first sequence of the list numbered \<open>n\<close>.
\<close>

theorem X1_option_value_selects_its_sequence:
  assumes "s \<in> set (sequences formState)" and "sequenceNumber s = Val n" and "\<bar>n\<bar> < 2 ^ 53"
  shows "List.find (\<lambda>s'. sequenceNumber s' = Val n) (sequences formState)
           = Some (currentDose (onDoseSelect (numberToString n) formState))
         \<and> sequenceNumber (currentDose (onDoseSelect (numberToString n) formState)) = Val n"
proof -
  from assms(1,2) obtain s' where
    found: "List.find (\<lambda>s'. sequenceNumber s' = Val n) (sequences formState) = Some s'"
    by (cases "List.find (\<lambda>s'. sequenceNumber s' = Val n) (sequences formState)")
       (auto simp: find_None_iff)
  then have num: "sequenceNumber s' = Val n" by (auto simp: find_Some_iff)
  have "currentDose (onDoseSelect (numberToString n) formState) = s'"
    using numberToString_parses [OF assms(3)] found by (simp add: onDoseSelect_eq)
  with found num show ?thesis by simp
qed

theorem X1_option_value_witness:
  "doseTwelve \<in> set (sequences (initialState\<lparr>sequences := [doseOne, doseTwelve]\<rparr>))
   \<and> sequenceNumber doseTwelve = Val 12
   \<and> \<bar>12 :: int\<bar> < 2 ^ 53
   \<and> numberToString 12 = codeUnits ''12''
   \<and> currentDose (onDoseSelect (numberToString 12)
         (initialState\<lparr>sequences := [doseOne, doseTwelve]\<rparr>)) = doseTwelve"
proof -
  have member: "doseTwelve \<in> set (sequences (initialState\<lparr>sequences := [doseOne, doseTwelve]\<rparr>))"
    by simp
  have number: "sequenceNumber doseTwelve = Val 12"
    by (simp add: doseTwelve_def)
  have small: "\<bar>12 :: int\<bar> < 2 ^ 53"
    by simp
  have rendered: "numberToString 12 = codeUnits ''12''"
    by (simp add: numberToString_def decimalDigits.simps [of 12]
        decimalDigits.simps [of "Suc 0"] codeUnits_def codeUnit_def)
  have "currentDose (onDoseSelect (numberToString 12)
          (initialState\<lparr>sequences := [doseOne, doseTwelve]\<rparr>)) = doseTwelve"
    using X1_option_value_selects_its_sequence [OF member number small]
    by (simp add: doseOne_def doseTwelve_def)
  with member number small rendered show ?thesis
    by blast
qed

section \<open>Close and cancel\<close>

text \<open>
  C3. Closing an unchanged form shows no prompt and calls \<open>entryCancelled\<close>, pushes the
  immunization list and calls \<open>closeComponent\<close>. Closing a changed form shows the prompt
  first; when the user declines nothing else is called, when the user confirms the same
  three calls follow. In every case the form state after the click is the state before it.
\<close>

theorem C3_closeForm:
  "(\<not> formChanged formState \<longrightarrow>
      closeForm t answer pid formState =
        ([EntryCancelled,
          HistoryPush (''/patient/'' @ template_str pid @ ''/chart/immunizations''),
          CloseComponent] :: ('r, 'e) effect list))
   \<and> (formChanged formState
        \<and> \<not> answer (t ''close form confirm message''
                       ''There is ongoing work, are you sure you want to close this tab?'') \<longrightarrow>
      closeForm t answer pid formState =
        ([ConfirmPrompt (t ''close form confirm message''
                           ''There is ongoing work, are you sure you want to close this tab?'')]
           :: ('r, 'e) effect list))
   \<and> (formChanged formState
        \<and> answer (t ''close form confirm message''
                     ''There is ongoing work, are you sure you want to close this tab?'') \<longrightarrow>
      closeForm t answer pid formState =
        ([ConfirmPrompt (t ''close form confirm message''
                           ''There is ongoing work, are you sure you want to close this tab?''),
          EntryCancelled,
          HistoryPush (''/patient/'' @ template_str pid @ ''/chart/immunizations''),
          CloseComponent] :: ('r, 'e) effect list))
   \<and> handle h inst (ClickCancel :: 'e event) =
       (inst,
        (closeForm (translate h) (confirm h) (patientUuid h) (form inst)
           :: ('r, 'e) effect list))"
  by (simp add: closeForm_def immunizationsPath_def)

theorem C3_closeForm_witness:
  "closeForm (\<lambda>key fallback. fallback) (\<lambda>message. False) (Val ''p1'') initialState =
     ([EntryCancelled, HistoryPush ''/patient/p1/chart/immunizations'', CloseComponent]
        :: (ImmunizationFormData, string) effect list)
   \<and> closeForm (\<lambda>key fallback. fallback) (\<lambda>message. False) (Val ''p1'')
        (initialState\<lparr>formChanged := True\<rparr>) =
     ([ConfirmPrompt ''There is ongoing work, are you sure you want to close this tab?'']
        :: (ImmunizationFormData, string) effect list)
   \<and> closeForm (\<lambda>key fallback. fallback) (\<lambda>message. True) (Val ''p1'')
        (initialState\<lparr>formChanged := True\<rparr>) =
     ([ConfirmPrompt ''There is ongoing work, are you sure you want to close this tab?'',
       EntryCancelled, HistoryPush ''/patient/p1/chart/immunizations'', CloseComponent]
        :: (ImmunizationFormData, string) effect list)"
  using
    C3_closeForm [where 'e = string and formState = initialState
      and t = "\<lambda>key fallback. fallback"
      and answer = "\<lambda>message. False" and pid = "Val ''p1''" and h = exampleHost
      and inst = "\<lparr>form = initialState, controllersCreated = 0\<rparr>"]
    C3_closeForm [where 'e = string and formState = "initialState\<lparr>formChanged := True\<rparr>"
      and t = "\<lambda>key fallback. fallback"
      and answer = "\<lambda>message. False" and pid = "Val ''p1''" and h = exampleHost
      and inst = "\<lparr>form = initialState, controllersCreated = 0\<rparr>"]
    C3_closeForm [where 'e = string and formState = "initialState\<lparr>formChanged := True\<rparr>"
      and t = "\<lambda>key fallback. fallback"
      and answer = "\<lambda>message. True" and pid = "Val ''p1''" and h = exampleHost
      and inst = "\<lparr>form = initialState, controllersCreated = 0\<rparr>"]
  by (simp add: initialState_def template_str_def)

section \<open>Modes and the submit button\<close>

text \<open>
  C4. The submit button is disabled, in create mode, exactly when the vaccination date is
  unset (\<open>undefined\<close>, \<open>null\<close> or empty), and in edit mode exactly when \<open>formChanged\<close>
  is false. Entering a vaccination date in create mode enables it, and so does any field
  change in edit mode.
\<close>

theorem C4_submit_button:
  "(\<not> isViewEditMode formState \<longrightarrow>
      (submitDisabled formState \<longleftrightarrow> vaccinationDate formState \<in> {Undefined, Null, Val []}))
   \<and> (isViewEditMode formState \<longrightarrow> (submitDisabled formState \<longleftrightarrow> \<not> formChanged formState))
   \<and> (\<not> isViewEditMode (form inst) \<and> d \<noteq> [] \<longrightarrow>
        \<not> submitDisabled (form (fst (handle h inst (InputVaccinationDate d)))))
   \<and> (isViewEditMode (form inst)
        \<and> e \<in> {SelectSequence v, InputVaccinationDate v, InputExpirationDate v,
                 InputLotNumber v, InputManufacturer v} \<longrightarrow>
        \<not> submitDisabled (form (fst (handle h inst e))))"
proof -
  have create: "\<not> isViewEditMode formState \<longrightarrow>
      (submitDisabled formState \<longleftrightarrow> vaccinationDate formState \<in> {Undefined, Null, Val []})"
    using truthy_str_unset [of "vaccinationDate formState"]
    by (simp add: submitDisabled_def enableCreateButtons_def)
  have edit: "isViewEditMode formState \<longrightarrow>
      (submitDisabled formState \<longleftrightarrow> \<not> formChanged formState)"
    by (simp add: submitDisabled_def enableEditButtons_def)
  have dated: "\<not> isViewEditMode (form inst) \<and> d \<noteq> [] \<longrightarrow>
        \<not> submitDisabled (form (fst (handle h inst (InputVaccinationDate d))))"
    by (simp add: form_changed submitDisabled_def enableCreateButtons_def isViewEditMode_def
        truthy_str_def)
  have touched: "isViewEditMode (form inst)
        \<and> e \<in> {SelectSequence v, InputVaccinationDate v, InputExpirationDate v,
                 InputLotNumber v, InputManufacturer v} \<longrightarrow>
        \<not> submitDisabled (form (fst (handle h inst e)))"
    by (auto simp: form_changed submitDisabled_def enableEditButtons_def isViewEditMode_def
        onDoseSelect_def)
  from create edit dated touched show ?thesis by blast
qed

theorem C4_submit_button_witness:
  "submitDisabled initialState
   \<and> \<not> submitDisabled
         (form (fst (handle exampleHost \<lparr>form = initialState, controllersCreated = 0\<rparr>
                       (InputVaccinationDate ''2020-01-15'' :: string event))))
   \<and> submitDisabled (formStateFromParam exampleParams)
   \<and> \<not> submitDisabled
         (form (fst (handle exampleHost
                       \<lparr>form = formStateFromParam exampleParams, controllersCreated = 0\<rparr>
                       (InputLotNumber ''L-78'' :: string event))))"
  using
    C4_submit_button [where formState = initialState
      and inst = "\<lparr>form = initialState, controllersCreated = 0\<rparr>"
      and d = "''2020-01-15''" and h = exampleHost
      and e = "InputLotNumber ''L-78'' :: string event" and v = "''L-78''"]
    C4_submit_button [where formState = "formStateFromParam exampleParams"
      and inst = "\<lparr>form = formStateFromParam exampleParams, controllersCreated = 0\<rparr>"
      and d = "''2020-01-15''" and h = exampleHost
      and e = "InputLotNumber ''L-78'' :: string event" and v = "''L-78''"]
  by (simp add: initialState_def isViewEditMode_def truthy_str_def formStateFromParam_def
      exampleParams_def)

text \<open>
  C5. The component is in edit mode exactly when the observation identifier is a
  non-empty string, and in no state are both \<open>enableCreateButtons\<close> and
  \<open>enableEditButtons\<close> true.
\<close>

theorem C5_edit_mode_iff_obs_uuid_and_buttons_exclusive:
  "(isViewEditMode formState \<longleftrightarrow> (\<exists>s. immunizationObsUuid formState = Val s \<and> s \<noteq> []))
   \<and> \<not> (enableCreateButtons formState \<and> enableEditButtons formState)"
  by (auto simp: isViewEditMode_def enableCreateButtons_def enableEditButtons_def truthy_str_iff)

section \<open>Pre-filling on mount\<close>

text \<open>
  C6. When the navigation parameters carry a non-empty list of sequences and a selected
  dose, the state set on mount holds exactly the parameters' vaccine name and uuid,
  observation uuid, dates, lot number, manufacturer, sequences and current dose, with
  \<open>formChanged\<close> false; it is in edit mode exactly when the parameters' observation uuid
  is a non-empty string.
\<close>

theorem C6_mount_reproduces_params:
  assumes "sequences_fd params = Val xs" and "xs \<noteq> []" and "currentDose_fd params = Val d"
  shows "mountEffect (Val params) formState =
           \<lparr>vaccineName = vaccineName_fd params,
            vaccineUuid = vaccineUuid_fd params,
            immunizationObsUuid = immunizationObsUuid_fd params,
            vaccinationDate = vaccinationDate_fd params,
            currentDose = d,
            sequences = xs,
            expirationDate = expirationDate_fd params,
            lotNumber = lotNumber_fd params,
            manufacturer = manufacturer_fd params,
            formChanged = False\<rparr>
         \<and> (isViewEditMode (mountEffect (Val params) formState) \<longleftrightarrow>
              (\<exists>s. immunizationObsUuid_fd params = Val s \<and> s \<noteq> []))"
  using assms
  by (simp add: mountEffect_def formStateFromParam_def hasSequences_def isViewEditMode_def
      truthy_str_iff)

theorem C6_mount_reproduces_params_witness:
  "sequences_fd exampleParams = Val [doseOne, doseTwelve]
   \<and> [doseOne, doseTwelve] \<noteq> []
   \<and> currentDose_fd exampleParams = Val doseOne
   \<and> mountEffect (Val exampleParams) initialState =
       \<lparr>vaccineName = Val ''Rotavirus'',
        vaccineUuid = Val ''rota-uuid'',
        immunizationObsUuid = Val ''obs-1'',
        vaccinationDate = Val ''2020-01-15'',
        currentDose = doseOne,
        sequences = [doseOne, doseTwelve],
        expirationDate = Val ''2021-06-30'',
        lotNumber = Val ''L-77'',
        manufacturer = Val ''Acme'',
        formChanged = False\<rparr>
   \<and> isViewEditMode (mountEffect (Val exampleParams) initialState)"
proof -
  have seqs: "sequences_fd exampleParams = Val [doseOne, doseTwelve]"
    by (simp add: exampleParams_def)
  have nonempty: "[doseOne, doseTwelve] \<noteq> []"
    by simp
  have dose: "currentDose_fd exampleParams = Val doseOne"
    by (simp add: exampleParams_def)
  show ?thesis
    using C6_mount_reproduces_params [OF seqs nonempty dose, of initialState] seqs dose
    by (simp add: exampleParams_def isViewEditMode_def truthy_str_def)
qed

text \<open>
  C9. Whatever the navigation parameters hold, the state set on mount has \<open>formChanged\<close>
  false, its \<open>sequences\<close> is the parameters' list (the empty list when the parameters
  have none, \<open>null\<close> or an empty one), and its \<open>currentDose\<close> is the parameters' dose
  (the empty default when the parameters have none).
\<close>

theorem C9_mount_defaults:
  "formChanged (mountEffect (Val params) formState) = False
   \<and> sequences (mountEffect (Val params) formState) =
       (case sequences_fd params of Undefined \<Rightarrow> [] | Null \<Rightarrow> [] | Val xs \<Rightarrow> xs)
   \<and> currentDose (mountEffect (Val params) formState) =
       (case currentDose_fd params of
          Undefined \<Rightarrow> defaultDose | Null \<Rightarrow> defaultDose | Val d \<Rightarrow> d)"
  by (simp add: mountEffect_def formStateFromParam_def hasSequences_def split: nullable.splits)

section \<open>The merge update\<close>

text \<open>
  C7. For every state and every update (a field name with a value of its type), the
  state produced by \<open>updateSingle\<close> holds the new value in the named field and the old
  value in every other field.
\<close>

theorem C7_updateSingle_replaces_exactly_one_field:
  "get_field (update_name u) (updateSingle u state) = update_value u
   \<and> (\<forall>f. f \<noteq> update_name u \<longrightarrow> get_field f (updateSingle u state) = get_field f state)"
  by (simp add: get_field_updateSingle)

theorem C7_updateSingle_witness:
  "get_field F_lotNumber (updateSingle (Set_lotNumber (Val ''A12'')) initialState)
     = V_string (Val ''A12'')
   \<and> get_field F_formChanged (updateSingle (Set_lotNumber (Val ''A12'')) initialState)
     = V_bool False
   \<and> get_field F_sequences (updateSingle (Set_lotNumber (Val ''A12'')) initialState)
     = V_doses []"
  using C7_updateSingle_replaces_exactly_one_field [of "Set_lotNumber (Val ''A12'')" initialState]
  by (simp add: initialState_def)

section \<open>The submitted payload and the returned cleanup\<close>

text \<open>
  C10. The object assembled on submission holds the patient identifier and the state's
  observation uuid, vaccine name and uuid, manufacturer, expiration and vaccination
  dates, lot number and current dose; it has no \<open>sequences\<close>, and neither it nor anything
  else the submit handler does depends on the state's \<open>sequences\<close> or \<open>formChanged\<close>.
\<close>

theorem C10_payload_projection:
  "immunization pid formState =
     \<lparr>patientUuid_fd = pid,
      immunizationObsUuid_fd = immunizationObsUuid formState,
      vaccineName_fd = vaccineName formState,
      vaccineUuid_fd = vaccineUuid formState,
      manufacturer_fd = manufacturer formState,
      expirationDate_fd = expirationDate formState,
      vaccinationDate_fd = vaccinationDate formState,
      lotNumber_fd = lotNumber formState,
      sequences_fd = Undefined,
      currentDose_fd = Val (currentDose formState)\<rparr>
   \<and> fst (handleFormSubmit h k formState) =
       ([PreventDefault,
         SavePatientImmunization
           (mapToFHIRImmunizationResource h (immunization (patientUuid h) formState)
              (currentVisitUuid h) (currentLocationUuid h) (currentProviderUuid h))
           (patientUuid h) (immunizationObsUuid formState) k] :: ('r, 'e) effect list)
   \<and> (handleFormSubmit h k (formState\<lparr>sequences := xs, formChanged := b\<rparr>)
         :: ('r, 'e) effect list \<times> ('r, 'e) effect list)
       = handleFormSubmit h k formState"
  by (simp add: immunization_def handleFormSubmit_def)

text \<open>
  C8. The function returned by the submit handler would abort the request just sent. It
  is returned to the framework's dispatch of the submit event, which does not keep it, so
  an unmount after a submission calls nothing: no sequence of events makes the component
  abort a request. Two submissions send two requests, each with a controller of its own.
\<close>

theorem C8_returned_cleanup_never_called:
  "snd (handleFormSubmit h (controllersCreated inst) (form inst)) =
     ([AbortRequest (controllersCreated inst)] :: ('r, 'e) effect list)
   \<and> snd (run h inst [SubmitForm, Unmount :: 'e event]) =
       (fst (handleFormSubmit h (controllersCreated inst) (form inst))
          :: ('r, 'e) effect list)
   \<and> snd (run h inst [SubmitForm, SubmitForm :: 'e event]) =
       (fst (handleFormSubmit h (controllersCreated inst) (form inst))
        @ fst (handleFormSubmit h (Suc (controllersCreated inst)) (form inst))
          :: ('r, 'e) effect list)
   \<and> (AbortRequest k :: ('r, 'e) effect) \<notin> set (snd (run h inst (es :: 'e event list)))"
  using run_no_abort [of k h inst es] by (simp add: handleFormSubmit_def)

end
